theory Spec2Isabelle
  imports Complex_Main "HOL-Library.Sublist"
begin

section \<open>Python values and exceptions\<close>

text \<open>
  The fusion engine receives plain Python dictionaries whose entries are dynamically
  typed. A value is one of the JSON-like shapes below; numbers (Python \<open>int\<close> and
  \<open>float\<close>) are exact reals, so floating-point rounding is not part of the model.
  A dictionary is an association list in insertion order. Strings are ASCII
  character lists.
\<close>

datatype pyval =
    PNone
  | PBool bool
  | PNum real
  | PStr string
  | PList "pyval list"
  | PDict "(pyval \<times> pyval) list"

type_synonym pydict = "(pyval \<times> pyval) list"

datatype py_error =
    AttributeError
  | TypeError
  | KeyError
  | ValueError
  | IndexError
  | ZeroDivisionError

text \<open>Sequencing of computations that may raise: the first exception wins.\<close>

definition ebind :: "'e + 'a \<Rightarrow> ('a \<Rightarrow> 'e + 'b) \<Rightarrow> 'e + 'b" where
  "ebind m f = (case m of Inl e \<Rightarrow> Inl e | Inr x \<Rightarrow> f x)"

text \<open>\<open>d.get(key, default)\<close> for a string key.\<close>

definition dict_get :: "pydict \<Rightarrow> string \<Rightarrow> pyval \<Rightarrow> pyval" where
  "dict_get d k dflt = (case map_of d (PStr k) of None \<Rightarrow> dflt | Some v \<Rightarrow> v)"

text \<open>The numeric reading of a value: \<open>bool\<close> is a number in Python.\<close>

fun as_num :: "pyval \<Rightarrow> real option" where
  "as_num (PNum x) = Some x"
| "as_num (PBool b) = Some (if b then 1 else 0)"
| "as_num PNone = None"
| "as_num (PStr s) = None"
| "as_num (PList xs) = None"
| "as_num (PDict d) = None"

text \<open>True division \<open>a / b\<close>.\<close>

definition py_truediv :: "pyval \<Rightarrow> pyval \<Rightarrow> py_error + real" where
  "py_truediv a b =
     (case as_num a of
        None \<Rightarrow> Inl TypeError
      | Some x \<Rightarrow>
          (case as_num b of
             None \<Rightarrow> Inl TypeError
           | Some y \<Rightarrow> if y = 0 then Inl ZeroDivisionError else Inr (x / y)))"

text \<open>The comparison \<open>v > 0\<close>.\<close>

definition py_gt_zero :: "pyval \<Rightarrow> py_error + bool" where
  "py_gt_zero v = (case as_num v of None \<Rightarrow> Inl TypeError | Some x \<Rightarrow> Inr (0 < x))"

text \<open>The membership test \<open>s in v\<close> for a string \<open>s\<close>.\<close>

fun py_contains :: "string \<Rightarrow> pyval \<Rightarrow> py_error + bool" where
  "py_contains s (PDict d) = Inr (map_of d (PStr s) \<noteq> None)"
| "py_contains s (PList xs) = Inr (PStr s \<in> set xs)"
| "py_contains s (PStr t) = Inr (sublist s t)"
| "py_contains s PNone = Inl TypeError"
| "py_contains s (PBool b) = Inl TypeError"
| "py_contains s (PNum x) = Inl TypeError"

text \<open>The subscript \<open>v[s]\<close> for a string \<open>s\<close>.\<close>

fun py_getitem :: "pyval \<Rightarrow> string \<Rightarrow> py_error + pyval" where
  "py_getitem (PDict d) s = (case map_of d (PStr s) of None \<Rightarrow> Inl KeyError | Some v \<Rightarrow> Inr v)"
| "py_getitem (PList xs) s = Inl TypeError"
| "py_getitem (PStr t) s = Inl TypeError"
| "py_getitem PNone s = Inl TypeError"
| "py_getitem (PBool b) s = Inl TypeError"
| "py_getitem (PNum x) s = Inl TypeError"

text \<open>\<open>v.items()\<close> exists on dictionaries only.\<close>

fun py_items :: "pyval \<Rightarrow> py_error + pydict" where
  "py_items (PDict d) = Inr d"
| "py_items PNone = Inl AttributeError"
| "py_items (PBool b) = Inl AttributeError"
| "py_items (PNum x) = Inl AttributeError"
| "py_items (PStr s) = Inl AttributeError"
| "py_items (PList xs) = Inl AttributeError"

section \<open>String operations\<close>

definition lower_char :: "char \<Rightarrow> char" where
  "lower_char c =
     (case map_of (zip ''ABCDEFGHIJKLMNOPQRSTUVWXYZ'' ''abcdefghijklmnopqrstuvwxyz'') c of
        Some d \<Rightarrow> d
      | None \<Rightarrow> c)"

definition upper_char :: "char \<Rightarrow> char" where
  "upper_char c =
     (case map_of (zip ''abcdefghijklmnopqrstuvwxyz'' ''ABCDEFGHIJKLMNOPQRSTUVWXYZ'') c of
        Some d \<Rightarrow> d
      | None \<Rightarrow> c)"

definition is_cased :: "char \<Rightarrow> bool" where
  "is_cased c \<longleftrightarrow>
     c \<in> set ''ABCDEFGHIJKLMNOPQRSTUVWXYZ'' \<or> c \<in> set ''abcdefghijklmnopqrstuvwxyz''"

text \<open>The ASCII characters that \<open>str.strip()\<close> removes.\<close>

definition is_space :: "char \<Rightarrow> bool" where
  "is_space c \<longleftrightarrow>
     c \<in> set [CHR 0x09, CHR 0x0A, CHR 0x0B, CHR 0x0C, CHR 0x0D,
               CHR 0x1C, CHR 0x1D, CHR 0x1E, CHR 0x1F, CHR 0x20]"

definition py_lower :: "string \<Rightarrow> string" where
  "py_lower s = map lower_char s"

definition py_strip :: "string \<Rightarrow> string" where
  "py_strip s = rev (dropWhile is_space (rev (dropWhile is_space s)))"

text \<open>
  \<open>str.title()\<close>: a letter that follows a letter is lower-cased, any other letter is
  upper-cased; the flag says whether the previous character was a letter.
\<close>

fun title_from :: "bool \<Rightarrow> string \<Rightarrow> string" where
  "title_from prev [] = []"
| "title_from prev (c # cs) =
     (if is_cased c
      then (if prev then lower_char c else upper_char c) # title_from True cs
      else c # title_from False cs)"

definition py_title :: "string \<Rightarrow> string" where
  "py_title s = title_from False s"

section \<open>Emotion vocabulary normalizer\<close>

definition EMOTION_MAPPING :: "(string \<times> string) list" where
  "EMOTION_MAPPING =
     [(''Angry'', ''angry''),
      (''angry'', ''angry''),
      (''Disgust'', ''disgust''),
      (''disgust'', ''disgust''),
      (''disgusted'', ''disgust''),
      (''Fear'', ''fear''),
      (''fear'', ''fear''),
      (''fearful'', ''fear''),
      (''Happy'', ''happy''),
      (''happy'', ''happy''),
      (''Neutral'', ''neutral''),
      (''neutral'', ''neutral''),
      (''Sad'', ''sad''),
      (''sad'', ''sad''),
      (''Surprise'', ''surprise''),
      (''surprise'', ''surprise''),
      (''surprised'', ''surprise''),
      (''calm'', ''calm'')]"

text \<open>\<open>normalize_emotion\<close> on a string argument.\<close>

definition normalize_emotion :: "string \<Rightarrow> string" where
  "normalize_emotion emotion =
     (let emotion_lower = py_strip (py_lower emotion) in
      case map_of EMOTION_MAPPING emotion of
        Some e \<Rightarrow> e
      | None \<Rightarrow>
          (case map_of EMOTION_MAPPING emotion_lower of
             Some e \<Rightarrow> e
           | None \<Rightarrow> emotion_lower))"

text \<open>
  \<open>normalize_emotion\<close> on any value: \<open>emotion.lower()\<close> raises \<open>AttributeError\<close>
  unless the argument is a string.
\<close>

fun normalize_emotion_py :: "pyval \<Rightarrow> py_error + string" where
  "normalize_emotion_py (PStr s) = Inr (normalize_emotion s)"
| "normalize_emotion_py PNone = Inl AttributeError"
| "normalize_emotion_py (PBool b) = Inl AttributeError"
| "normalize_emotion_py (PNum x) = Inl AttributeError"
| "normalize_emotion_py (PList xs) = Inl AttributeError"
| "normalize_emotion_py (PDict d) = Inl AttributeError"

section \<open>Per-modality confidence extraction\<close>

text \<open>\<open>_get_confidence\<close>: the score map is read at the given emotion, as it is.\<close>

definition get_confidence :: "pydict \<Rightarrow> string \<Rightarrow> py_error + real" where
  "get_confidence result emotion =
     (let confidence_scores = dict_get result ''confidence_scores'' (PDict []) in
      ebind (py_contains emotion confidence_scores) (\<lambda>found.
        if found
        then ebind (py_getitem confidence_scores emotion) (\<lambda>v. py_truediv v (PNum 100))
        else Inr (1 / 2)))"

text \<open>The loop of \<open>_get_video_confidence\<close> over the items of the distribution.\<close>

fun video_loop :: "pydict \<Rightarrow> pyval \<Rightarrow> string \<Rightarrow> py_error + real" where
  "video_loop [] total_frames emotion = Inr (1 / 2)"
| "video_loop ((key, val) # rest) total_frames emotion =
     ebind (normalize_emotion_py key) (\<lambda>k.
       if k = emotion
       then ebind (py_gt_zero total_frames) (\<lambda>pos. if pos then py_truediv val total_frames else Inr 0)
       else video_loop rest total_frames emotion)"

definition get_video_confidence :: "pydict \<Rightarrow> string \<Rightarrow> py_error + real" where
  "get_video_confidence result emotion =
     (let emotion_dist = dict_get result ''emotion_distribution'' (PDict []);
          total_frames = dict_get result ''total_frames_processed'' (PNum 1)
      in ebind (py_items emotion_dist) (\<lambda>items. video_loop items total_frames emotion))"

section \<open>Weighted fusion\<close>

record fused_result =
  dominant_emotion :: string
  confidence :: real
  emotion_scores :: "(string \<times> real) list"
  mr_text :: "string \<times> real"
  mr_video :: "string \<times> real"
  mr_audio :: "string \<times> real"

text \<open>
  In \<open>fused_result\<close> the three \<open>mr_\<close> fields are the entries of \<open>modality_results\<close>,
  each the pair of the \<open>emotion\<close> and the \<open>confidence\<close> reported for the modality.
\<close>

text \<open>\<open>round(x, ndigits)\<close> in exact arithmetic: to the nearest, ties to the even digit.\<close>

definition round_half_even :: "real \<Rightarrow> int" where
  "round_half_even x =
     (let f = \<lfloor>x\<rfloor>; d = x - of_int f in
      if d < 1 / 2 then f
      else if 1 / 2 < d then f + 1
      else if even f then f else f + 1)"

definition py_round :: "real \<Rightarrow> nat \<Rightarrow> real" where
  "py_round x ndigits = of_int (round_half_even (x * 10 ^ ndigits)) / 10 ^ ndigits"

text \<open>The weights used when the caller passes \<open>None\<close>.\<close>

definition default_weights :: pydict where
  "default_weights =
     [(PStr ''text'', PNum (3 / 10)), (PStr ''video'', PNum (4 / 10)), (PStr ''audio'', PNum (3 / 10))]"

definition weights_or_default :: "pydict option \<Rightarrow> pydict" where
  "weights_or_default weights = (case weights of None \<Rightarrow> default_weights | Some w \<Rightarrow> w)"

text \<open>\<open>result.get('dominant_emotion', 'neutral')\<close>, normalized.\<close>

definition dominant_label :: "pydict \<Rightarrow> py_error + string" where
  "dominant_label result =
     normalize_emotion_py (dict_get result ''dominant_emotion'' (PStr ''neutral''))"

text \<open>
  The normalized emotion and the extracted confidence of each modality, in the order
  the source computes them: the three emotions first, then the three confidences.
\<close>

definition modality_votes ::
  "pydict \<Rightarrow> pydict \<Rightarrow> pydict \<Rightarrow>
   py_error + ((string \<times> real) \<times> (string \<times> real) \<times> (string \<times> real))"
where
  "modality_votes text_result video_result audio_result =
     ebind (dominant_label text_result) (\<lambda>text_emotion.
     ebind (dominant_label video_result) (\<lambda>video_emotion.
     ebind (dominant_label audio_result) (\<lambda>audio_emotion.
     ebind (get_confidence text_result text_emotion) (\<lambda>text_confidence.
     ebind (get_video_confidence video_result video_emotion) (\<lambda>video_confidence.
     ebind (get_confidence audio_result audio_emotion) (\<lambda>audio_confidence.
       Inr ((text_emotion, text_confidence),
            (video_emotion, video_confidence),
            (audio_emotion, audio_confidence))))))))"

text \<open>
  The number \<open>weights[name]\<close>: a missing key raises \<open>KeyError\<close>, and a value that is
  not a number raises \<open>TypeError\<close> when the confidence is multiplied by it.
\<close>

definition weight_value :: "pydict \<Rightarrow> string \<Rightarrow> py_error + real" where
  "weight_value weights name =
     (case map_of weights (PStr name) of
        None \<Rightarrow> Inl KeyError
      | Some w \<Rightarrow> (case as_num w of None \<Rightarrow> Inl TypeError | Some y \<Rightarrow> Inr y))"

text \<open>The product \<open>confidence * weights[name]\<close>.\<close>

definition weight_term :: "pydict \<Rightarrow> string \<Rightarrow> real \<Rightarrow> py_error + real" where
  "weight_term weights name conf = ebind (weight_value weights name) (\<lambda>y. Inr (conf * y))"

text \<open>One guarded \<open>score += confidence * weights[name]\<close>.\<close>

definition add_vote :: "pydict \<Rightarrow> string \<Rightarrow> real \<Rightarrow> bool \<Rightarrow> real \<Rightarrow> py_error + real" where
  "add_vote weights name conf voted score =
     (if voted then ebind (weight_term weights name conf) (\<lambda>x. Inr (score + x)) else Inr score)"

text \<open>The body of the voting loop for one emotion.\<close>

definition emotion_score ::
  "pydict \<Rightarrow> (string \<times> real) \<Rightarrow> (string \<times> real) \<Rightarrow> (string \<times> real) \<Rightarrow> string \<Rightarrow>
   py_error + real"
where
  "emotion_score weights tv vv av emotion =
     ebind (add_vote weights ''text'' (snd tv) (emotion = fst tv) 0) (\<lambda>s1.
     ebind (add_vote weights ''video'' (snd vv) (emotion = fst vv) s1) (\<lambda>s2.
       add_vote weights ''audio'' (snd av) (emotion = fst av) s2))"

text \<open>The voting loop: one entry of \<open>emotion_scores\<close> per emotion, in iteration order.\<close>

fun score_loop ::
  "pydict \<Rightarrow> (string \<times> real) \<Rightarrow> (string \<times> real) \<Rightarrow> (string \<times> real) \<Rightarrow> string list \<Rightarrow>
   py_error + (string \<times> real) list"
where
  "score_loop weights tv vv av [] = Inr []"
| "score_loop weights tv vv av (e # es) =
     ebind (emotion_score weights tv vv av e) (\<lambda>s.
     ebind (score_loop weights tv vv av es) (\<lambda>rest. Inr ((e, s) # rest)))"

text \<open>
  The order in which Python iterates a \<open>set\<close> of strings depends on their hashes and
  is not fixed by the program. The parameter \<open>rank\<close> stands for it: the distinct
  elements are visited by increasing rank. Every order of up to three distinct
  strings is the order of some \<open>rank\<close>.
\<close>

definition set_iter :: "(string \<Rightarrow> nat) \<Rightarrow> string list \<Rightarrow> string list" where
  "set_iter rank xs = sort_key rank (remdups xs)"

text \<open>One possible iteration order: every string has rank zero.\<close>

definition flat_rank :: "string \<Rightarrow> nat" where
  "flat_rank s = 0"

text \<open>\<open>max(xs, key=f)\<close>: the first element whose key no later element exceeds.\<close>

definition py_max_by :: "('a \<Rightarrow> 'k::linorder) \<Rightarrow> 'a list \<Rightarrow> py_error + 'a" where
  "py_max_by f xs =
     (case xs of
        [] \<Rightarrow> Inl ValueError
      | x # rest \<Rightarrow> Inr (foldl (\<lambda>m y. if f m < f y then y else m) x rest))"

text \<open>The weighted scores before they are rescaled to percentages.\<close>

definition weighted_voting ::
  "(string \<Rightarrow> nat) \<Rightarrow> pydict \<Rightarrow> (string \<times> real) \<times> (string \<times> real) \<times> (string \<times> real) \<Rightarrow>
   py_error + (string \<times> real) list"
where
  "weighted_voting rank weights votes =
     (case votes of (tv, vv, av) \<Rightarrow>
        score_loop weights tv vv av (set_iter rank [fst tv, fst vv, fst av]))"

text \<open>The rescaling of the scores to percentages.\<close>

definition rescale :: "(string \<times> real) list \<Rightarrow> (string \<times> real) list" where
  "rescale scores =
     (let total_score = sum_list (map snd scores) in
      if 0 < total_score
      then map (\<lambda>kv. (fst kv, snd kv / total_score * 100)) scores
      else scores)"

text \<open>
  The \<open>try\<close> block of \<open>fuse_results\<close>. The keys of \<open>emotion_scores\<close> are distinct, so
  \<open>max(emotion_scores, key=emotion_scores.get)\<close> is the key of the first entry with
  the largest score, and \<open>dominant_score\<close> is the score of that entry.
\<close>

definition fuse_primary ::
  "(string \<Rightarrow> nat) \<Rightarrow> pydict \<Rightarrow> pydict \<Rightarrow> pydict \<Rightarrow> pydict option \<Rightarrow>
   py_error + fused_result"
where
  "fuse_primary rank text_result video_result audio_result weights =
     (let w = weights_or_default weights in
      ebind (modality_votes text_result video_result audio_result) (\<lambda>votes.
      ebind (weighted_voting rank w votes) (\<lambda>scores.
      ebind (py_max_by snd scores) (\<lambda>dominant.
        case votes of (tv, vv, av) \<Rightarrow>
          Inr \<lparr>dominant_emotion = fst dominant,
               confidence = py_round (snd dominant * 100) 2,
               emotion_scores = rescale scores,
               mr_text = (fst tv, py_round (snd tv) 2),
               mr_video = (fst vv, py_round (snd vv) 2),
               mr_audio = (fst av, py_round (snd av) 2)\<rparr>))))"

section \<open>Fallback majority vote\<close>

text \<open>\<open>Counter(xs)\<close>: the counts of the elements, in order of first occurrence.\<close>

fun counter_add :: "'a \<Rightarrow> ('a \<times> nat) list \<Rightarrow> ('a \<times> nat) list" where
  "counter_add x [] = [(x, 1)]"
| "counter_add x ((y, n) # rest) =
     (if x = y then (y, Suc n) # rest else (y, n) # counter_add x rest)"

definition Counter :: "'a list \<Rightarrow> ('a \<times> nat) list" where
  "Counter xs = foldl (\<lambda>c x. counter_add x c) [] xs"

text \<open>
  \<open>c.most_common(1)[0][0]\<close>: \<open>most_common(1)\<close> is the list of the first entry with
  the largest count, empty for an empty counter, and \<open>[0]\<close> raises on the empty list.
\<close>

definition most_common_first :: "('a \<times> nat) list \<Rightarrow> py_error + 'a" where
  "most_common_first c =
     (case py_max_by snd c of Inl e \<Rightarrow> Inl IndexError | Inr kv \<Rightarrow> Inr (fst kv))"

text \<open>The \<open>except\<close> block of \<open>fuse_results\<close>.\<close>

definition fuse_fallback :: "pydict \<Rightarrow> pydict \<Rightarrow> pydict \<Rightarrow> py_error + fused_result" where
  "fuse_fallback text_result video_result audio_result =
     ebind (dominant_label text_result) (\<lambda>e0.
     ebind (dominant_label video_result) (\<lambda>e1.
     ebind (dominant_label audio_result) (\<lambda>e2.
     ebind (most_common_first (Counter [e0, e1, e2])) (\<lambda>winner.
       Inr \<lparr>dominant_emotion = winner,
            confidence = 50,
            emotion_scores = [(winner, 100)],
            mr_text = (e0, 333 / 10),
            mr_video = (e1, 333 / 10),
            mr_audio = (e2, 333 / 10)\<rparr>))))"

text \<open>
  \<open>fuse_results\<close>: any exception of the \<open>try\<close> block is caught and the \<open>except\<close>
  block runs; an exception raised there reaches the caller.
\<close>

definition fuse_results ::
  "(string \<Rightarrow> nat) \<Rightarrow> pydict \<Rightarrow> pydict \<Rightarrow> pydict \<Rightarrow> pydict option \<Rightarrow>
   py_error + fused_result"
where
  "fuse_results rank text_result video_result audio_result weights =
     (case fuse_primary rank text_result video_result audio_result weights of
        Inr r \<Rightarrow> Inr r
      | Inl e \<Rightarrow> fuse_fallback text_result video_result audio_result)"

section \<open>Mood responses\<close>

definition EMOTIONS :: "(string \<times> string) list" where
  "EMOTIONS =
     [(''Neutral'', ''Let's do something fun! Would you like to play a quick game, hear an interesting fact, or get a fun challenge?''),
      (''Happy'', ''You're in a great mood! Let's keep the positivity going. Want to listen to an uplifting story, get a fun challenge, or share a happy memory?''),
      (''Sad'', ''I'm here for you. Would you like some calming music recommendations, a motivational story, or a virtual hug?''),
      (''Angry'', ''I understand frustration can be tough. Want to try a quick breathing exercise, hear a calming story, or vent your thoughts?''),
      (''Fear'', ''You're not alone! Let's ease your mind. Want a comforting quote, a guided relaxation, or an inspiring success story?''),
      (''Disgust'', ''Let's distract your mind. Want to hear a joke, learn a new interesting fact, or play a quick word game?''),
      (''Surprise'', ''Surprises can be fun! Want to share what happened, hear about a surprising event, or play a quick reaction game?''),
      (''Calm'', ''A peaceful moment is precious. Would you like to try meditation, listen to soothing nature sounds, or explore a new mindfulness tip?'')]"

definition MOOD_ALIASES :: "(string \<times> string) list" where
  "MOOD_ALIASES =
     [(''fearful'', ''fear''),
      (''fear'', ''fear''),
      (''disgusted'', ''disgust''),
      (''disgust'', ''disgust''),
      (''surprised'', ''surprise''),
      (''surprise'', ''surprise''),
      (''neutral'', ''neutral''),
      (''happy'', ''happy''),
      (''sad'', ''sad''),
      (''angry'', ''angry''),
      (''calm'', ''calm'')]"

definition normalize_mood :: "string \<Rightarrow> string" where
  "normalize_mood mood =
     (let key = py_lower (py_strip mood);
          normalized = (case map_of MOOD_ALIASES key of None \<Rightarrow> key | Some m \<Rightarrow> m)
      in py_title normalized)"

definition get_mood_recommendation :: "string \<Rightarrow> string" where
  "get_mood_recommendation mood =
     (let normalized_mood = normalize_mood mood in
      case map_of EMOTIONS normalized_mood of
        None \<Rightarrow> ''I didn't recognize that mood. Can you describe how you're feeling?''
      | Some m \<Rightarrow> m)"

text \<open>
  \<open>process_message\<close>. The generative client is outside the program: the parameter
  \<open>generate\<close> stands for the call \<open>client.models.generate_content(..., contents=message)\<close>
  followed by \<open>.text\<close>, which returns a string or raises.
\<close>

definition process_message :: "(string \<Rightarrow> py_error + string) \<Rightarrow> string \<Rightarrow> py_error + string" where
  "process_message generate message =
     (let mood = normalize_mood message in
      if map_of EMOTIONS mood \<noteq> None
      then Inr (get_mood_recommendation mood)
      else generate message)"

section \<open>Well-formed evidence\<close>

text \<open>
  The conditions under which the statements below are made. A dominant label is
  usable when the field is absent or holds a string.
\<close>

definition label_is_str :: "pydict \<Rightarrow> bool" where
  "label_is_str result =
     (case dict_get result ''dominant_emotion'' (PStr ''neutral'') of
        PStr s \<Rightarrow> True
      | _ \<Rightarrow> False)"

text \<open>A number between two bounds.\<close>

definition num_between :: "real \<Rightarrow> real \<Rightarrow> pyval \<Rightarrow> bool" where
  "num_between lo hi v = (case v of PNum x \<Rightarrow> lo \<le> x \<and> x \<le> hi | _ \<Rightarrow> False)"

definition is_str :: "pyval \<Rightarrow> bool" where
  "is_str v = (case v of PStr s \<Rightarrow> True | _ \<Rightarrow> False)"

text \<open>
  A score map that is absent, or a dictionary whose values are numbers from 0 to 100.
\<close>

definition scores_in_range :: "pydict \<Rightarrow> bool" where
  "scores_in_range result =
     (case dict_get result ''confidence_scores'' (PDict []) of
        PDict d \<Rightarrow> list_all (\<lambda>kv. num_between 0 100 (snd kv)) d
      | _ \<Rightarrow> False)"

text \<open>
  A frame distribution that is absent, or a dictionary from strings to counts, each
  count between 0 and the number of frames processed; the number of frames processed
  is the field \<open>total_frames_processed\<close>, or 1 when the field is absent.
\<close>

definition frames_in_range :: "pydict \<Rightarrow> bool" where
  "frames_in_range result =
     (case dict_get result ''total_frames_processed'' (PNum 1) of
        PNum n \<Rightarrow>
          (case dict_get result ''emotion_distribution'' (PDict []) of
             PDict d \<Rightarrow> list_all (\<lambda>kv. is_str (fst kv) \<and> num_between 0 n (snd kv)) d
           | _ \<Rightarrow> False)
      | _ \<Rightarrow> False)"


text \<open>A frame-count map with string keys and numeric counts, as a Python value.\<close>

definition frame_dist :: "(string \<times> real) list \<Rightarrow> pyval" where
  "frame_dist counts = PDict (map (\<lambda>kc. (PStr (fst kc), PNum (snd kc))) counts)"

section \<open>Example inputs\<close>

text \<open>
  A text result for \<open>happy\<close> with score 90, a video result for \<open>Sad\<close> on 9 of 10
  frames, an audio result for \<open>sad\<close> with score 90, and a text result whose score is
  not a number.
\<close>

definition ex_text_happy :: pydict where
  "ex_text_happy =
     [(PStr ''dominant_emotion'', PStr ''happy''),
      (PStr ''confidence_scores'', PDict [(PStr ''happy'', PNum 90)])]"

definition ex_video_sad :: pydict where
  "ex_video_sad =
     [(PStr ''dominant_emotion'', PStr ''Sad''),
      (PStr ''emotion_distribution'', PDict [(PStr ''Sad'', PNum 9)]),
      (PStr ''total_frames_processed'', PNum 10)]"

definition ex_audio_sad :: pydict where
  "ex_audio_sad =
     [(PStr ''dominant_emotion'', PStr ''sad''),
      (PStr ''confidence_scores'', PDict [(PStr ''sad'', PNum 90)])]"

definition ex_text_bad :: pydict where
  "ex_text_bad =
     [(PStr ''dominant_emotion'', PStr ''Happy''),
      (PStr ''confidence_scores'', PDict [(PStr ''happy'', PStr ''high'')])]"

text \<open>Results whose evidence gives confidence zero, and weights that are all zero.\<close>

definition ex_text_zero :: pydict where
  "ex_text_zero =
     [(PStr ''dominant_emotion'', PStr ''happy''),
      (PStr ''confidence_scores'', PDict [(PStr ''happy'', PNum 0)])]"

definition ex_video_zero :: pydict where
  "ex_video_zero =
     [(PStr ''dominant_emotion'', PStr ''Sad''),
      (PStr ''emotion_distribution'', PDict [(PStr ''Sad'', PNum 0)]),
      (PStr ''total_frames_processed'', PNum 10)]"

definition ex_audio_zero :: pydict where
  "ex_audio_zero =
     [(PStr ''dominant_emotion'', PStr ''sad''),
      (PStr ''confidence_scores'', PDict [(PStr ''sad'', PNum 0)])]"

definition ex_zero_weights :: pydict where
  "ex_zero_weights = [(PStr ''text'', PNum 0), (PStr ''video'', PNum 0), (PStr ''audio'', PNum 0)]"

section \<open>Basic facts\<close>

lemma ebind_Inl [simp]: "ebind (Inl e) f = Inl e"
  by (simp add: ebind_def)

lemma ebind_Inr [simp]: "ebind (Inr x) f = f x"
  by (simp add: ebind_def)

lemma ebind_eq_Inr: "ebind m f = Inr y \<longleftrightarrow> (\<exists>x. m = Inr x \<and> f x = Inr y)"
  by (cases m) simp_all

lemma normalize_emotion_Happy: "normalize_emotion ''Happy'' = ''happy''"
  by (simp add: normalize_emotion_def EMOTION_MAPPING_def)

section \<open>The confidence extractors\<close>

text \<open>
  C3. The score-map extractor does not normalize the keys of the score map: it looks
  the target emotion up as it is. For an audio result labelled \<open>fearful\<close> with the
  score map \<open>{'fearful': 90}\<close>, the key \<open>fearful\<close> normalizes to the target \<open>fear\<close>,
  yet the extractor returns the default 0.5 and not 90 / 100.
\<close>

theorem get_confidence_synonym_key:
  "normalize_emotion ''fearful'' = ''fear''
   \<and> get_confidence
        [(PStr ''dominant_emotion'', PStr ''fearful''),
         (PStr ''confidence_scores'', PDict [(PStr ''fearful'', PNum 90)])] ''fear'' = Inr (1 / 2)"
  by (simp add: normalize_emotion_def EMOTION_MAPPING_def get_confidence_def dict_get_def)

lemma video_loop_frame_dist:
  "video_loop (map (\<lambda>kc. (PStr (fst kc), PNum (snd kc))) counts) (PNum n) target =
     Inr (case find (\<lambda>kc. normalize_emotion (fst kc) = target) counts of
            None \<Rightarrow> 1 / 2
          | Some kc \<Rightarrow> if 0 < n then snd kc / n else 0)"
  by (induction counts) (auto simp: py_gt_zero_def py_truediv_def)

text \<open>
  C4. For a video result whose frame distribution (empty when absent) maps strings to
  counts and whose \<open>total_frames_processed\<close> (1 when absent) is a number \<open>n\<close>, the
  frame-distribution extractor normalizes the keys in order; at the first key whose
  normalization is the target it returns the count divided by \<open>n\<close>, or 0 when \<open>n\<close>
  is not positive (in particular when it is zero); when no key matches it returns
  the default 0.5.
\<close>

theorem get_video_confidence_first_match:
  assumes "dict_get result ''emotion_distribution'' (PDict []) = frame_dist counts"
    and "dict_get result ''total_frames_processed'' (PNum 1) = PNum n"
  shows "get_video_confidence result target =
     Inr (case find (\<lambda>kc. normalize_emotion (fst kc) = target) counts of
            None \<Rightarrow> 1 / 2
          | Some kc \<Rightarrow> if 0 < n then snd kc / n else 0)"
  using assms
  by (simp add: get_video_confidence_def frame_dist_def video_loop_frame_dist)

text \<open>
  The two instances of C4: \<open>{'Happy': 8}\<close> with 10 frames processed gives 0.8 for
  \<open>happy\<close>, and with 0 frames processed gives 0.0.
\<close>

theorem get_video_confidence_first_match_witness:
  "get_video_confidence
     [(PStr ''emotion_distribution'', PDict [(PStr ''Happy'', PNum 8)]),
      (PStr ''total_frames_processed'', PNum 10)] ''happy'' = Inr (4 / 5)
   \<and> get_video_confidence
     [(PStr ''emotion_distribution'', PDict [(PStr ''Happy'', PNum 8)]),
      (PStr ''total_frames_processed'', PNum 0)] ''happy'' = Inr 0"
  using get_video_confidence_first_match
          [of "[(PStr ''emotion_distribution'', PDict [(PStr ''Happy'', PNum 8)]),
                (PStr ''total_frames_processed'', PNum 10)]" "[(''Happy'', 8)]" 10 "''happy''"]
        get_video_confidence_first_match
          [of "[(PStr ''emotion_distribution'', PDict [(PStr ''Happy'', PNum 8)]),
                (PStr ''total_frames_processed'', PNum 0)]" "[(''Happy'', 8)]" 0 "''happy''"]
  by (simp add: normalize_emotion_Happy dict_get_def frame_dist_def)

section \<open>The mood responses\<close>

lemma normalize_mood_Sad: "normalize_mood ''Sad'' = ''Sad''"
  by code_simp

lemma normalize_mood_hello: "normalize_mood ''hello there'' = ''Hello There''"
  by code_simp

lemma normalize_mood_xyzzy: "normalize_mood ''xyzzy'' = ''Xyzzy''"
  by code_simp

lemma EMOTIONS_Sad:
  "map_of EMOTIONS ''Sad'' =
     Some ''I'm here for you. Would you like some calming music recommendations, a motivational story, or a virtual hug?''"
  by (simp add: EMOTIONS_def)

lemma EMOTIONS_Xyzzy: "map_of EMOTIONS ''Xyzzy'' = None"
  by (simp add: EMOTIONS_def)

text \<open>
  C10. \<open>process_message\<close> on \<open>Sad\<close> returns the canned message of the sad mood
  whatever the generative client would do. On every message whose normalization is
  no key of \<open>EMOTIONS\<close>, such as \<open>xyzzy\<close>, it calls the generative client on the
  raw message and returns the outcome of that call unchanged.
\<close>

theorem process_message_sad_and_unknown:
  "process_message generate ''Sad'' =
     Inr ''I'm here for you. Would you like some calming music recommendations, a motivational story, or a virtual hug?''
   \<and> process_message generate ''xyzzy'' = generate ''xyzzy''
   \<and> (map_of EMOTIONS (normalize_mood message) = None
        \<longrightarrow> process_message generate message = generate message)"
  by (simp add: process_message_def get_mood_recommendation_def normalize_mood_Sad
        normalize_mood_xyzzy EMOTIONS_Sad EMOTIONS_Xyzzy)

text \<open>
  The message \<open>hello there\<close> normalizes to no key of \<open>EMOTIONS\<close>; with a client that
  answers with its prompt, the answer is the raw message.
\<close>

theorem process_message_sad_and_unknown_witness:
  "map_of EMOTIONS (normalize_mood ''hello there'') = None
   \<and> process_message Inr ''hello there'' = Inr ''hello there''"
proof -
  have n: "map_of EMOTIONS (normalize_mood ''hello there'') = None"
    by (simp add: normalize_mood_hello EMOTIONS_def)
  with process_message_sad_and_unknown [of Inr "''hello there''"] show ?thesis by blast
qed

section \<open>Facts about the fusion core\<close>


lemma distinct_set_iter: "distinct (set_iter rank xs)"
  by (simp add: set_iter_def)

lemma score_loop_keys: "score_loop W tv vv av es = Inr scores \<Longrightarrow> map fst scores = es"
  by (induction es arbitrary: scores) (auto simp: ebind_eq_Inr)

lemma foldl_max_mem:
  "foldl (\<lambda>m y. if f m < f y then y else m) x xs \<in> set (x # xs)"
  by (induction xs arbitrary: x) (auto split: if_splits)

lemma py_max_by_mem: "py_max_by f xs = Inr m \<Longrightarrow> m \<in> set xs"
  using foldl_max_mem [of f] by (auto simp: py_max_by_def split: list.splits)

lemma sum_list_scaled:
  "sum_list (map (\<lambda>kv. snd kv / t * 100) scores) = sum_list (map snd scores) / t * (100::real)"
  by (induction scores) (simp_all add: add_divide_distrib distrib_right)

lemma rescale_sum:
  assumes "0 < sum_list (map snd scores)"
  shows "sum_list (map snd (rescale scores)) = 100"
proof -
  let ?t = "sum_list (map snd scores)"
  have "map snd (rescale scores) = map (\<lambda>kv. snd kv / ?t * 100) scores"
    using assms by (simp add: rescale_def Let_def comp_def)
  then have "sum_list (map snd (rescale scores)) = ?t / ?t * 100"
    by (simp only: sum_list_scaled)
  with assms show ?thesis by simp
qed


lemma rescale_zero:
  "sum_list (map snd scores) = 0 \<Longrightarrow> rescale scores = scores"
  by (simp add: rescale_def)

lemma fuse_primary_Inr:
  "fuse_primary rank t v a w = Inr r \<longleftrightarrow>
     (\<exists>votes scores dominant.
        modality_votes t v a = Inr votes
        \<and> weighted_voting rank (weights_or_default w) votes = Inr scores
        \<and> py_max_by snd scores = Inr dominant
        \<and> r = \<lparr>dominant_emotion = fst dominant,
                 confidence = py_round (snd dominant * 100) 2,
                 emotion_scores = rescale scores,
                 mr_text = (fst (fst votes), py_round (snd (fst votes)) 2),
                 mr_video = (fst (fst (snd votes)), py_round (snd (fst (snd votes))) 2),
                 mr_audio = (fst (snd (snd votes)), py_round (snd (snd (snd votes))) 2)\<rparr>)"
  by (auto simp: fuse_primary_def Let_def ebind_eq_Inr split: prod.splits)

lemma weighted_voting_keys:
  "weighted_voting rank W votes = Inr scores \<Longrightarrow>
     map fst scores = set_iter rank [fst (fst votes), fst (fst (snd votes)), fst (snd (snd votes))]"
  by (auto simp: weighted_voting_def split: prod.splits dest: score_loop_keys)


lemma emotion_score_zero_conf:
  "emotion_score W tv vv av e = Inr s \<Longrightarrow> snd tv = 0 \<Longrightarrow> snd vv = 0 \<Longrightarrow> snd av = 0 \<Longrightarrow> s = 0"
  by (auto simp: emotion_score_def add_vote_def weight_term_def ebind_eq_Inr split: if_splits)

lemma emotion_score_zero_weights:
  "emotion_score W tv vv av e = Inr s \<Longrightarrow> weight_value W ''text'' = Inr 0 \<Longrightarrow>
     weight_value W ''video'' = Inr 0 \<Longrightarrow> weight_value W ''audio'' = Inr 0 \<Longrightarrow> s = 0"
  by (auto simp: emotion_score_def add_vote_def weight_term_def ebind_eq_Inr split: if_splits)

lemma score_loop_zero_conf:
  "score_loop W tv vv av es = Inr scores \<Longrightarrow> snd tv = 0 \<Longrightarrow> snd vv = 0 \<Longrightarrow> snd av = 0 \<Longrightarrow>
     sum_list (map snd scores) = 0"
  by (induction es arbitrary: scores) (auto simp: ebind_eq_Inr dest: emotion_score_zero_conf)

lemma score_loop_zero_weights:
  "score_loop W tv vv av es = Inr scores \<Longrightarrow> weight_value W ''text'' = Inr 0 \<Longrightarrow>
     weight_value W ''video'' = Inr 0 \<Longrightarrow> weight_value W ''audio'' = Inr 0 \<Longrightarrow>
     sum_list (map snd scores) = 0"
  by (induction es arbitrary: scores) (auto simp: ebind_eq_Inr dest: emotion_score_zero_weights)

lemma set_iter_two:
  "a \<noteq> b \<Longrightarrow> set_iter rank [a, b, b] = (if rank a \<le> rank b then [a, b] else [b, a])"
  by (simp add: set_iter_def)

lemma set_iter_one: "set_iter rank [a, a, a] = [a]"
  by (simp add: set_iter_def)

lemma weight_value_default:
  "weight_value default_weights ''text'' = Inr (3 / 10)"
  "weight_value default_weights ''video'' = Inr (4 / 10)"
  "weight_value default_weights ''audio'' = Inr (3 / 10)"
  by (simp_all add: weight_value_def default_weights_def)

lemma emotion_score_default:
  "emotion_score default_weights (te, tc) (ve, vc) (ae, ac) e =
     Inr (0 + (if e = te then tc * (3 / 10) else 0) + (if e = ve then vc * (4 / 10) else 0)
            + (if e = ae then ac * (3 / 10) else 0))"
  by (simp add: emotion_score_def add_vote_def weight_term_def weight_value_default)

lemma py_round_63: "py_round (63 / 100 * 100) 2 = 63"
  by (simp add: py_round_def round_half_even_def)

lemma py_round_half: "py_round (1 / 2) 2 = 1 / 2" "py_round (1 / 2 * 100) 2 = 50" "py_round (9 / 10) 2 = 9 / 10"
  by (simp_all add: py_round_def round_half_even_def)

lemma py_round_50: "py_round 50 2 = 50"
  by (simp add: py_round_def round_half_even_def)

section \<open>Facts about the fallback\<close>

lemma most_common_three:
  "most_common_first (Counter [a, b, c]) =
     Inr (if a = b \<or> a = c then a else if b = c then b else a)"
  by (simp add: Counter_def most_common_first_def py_max_by_def)

lemma fuse_fallback_Inr:
  "dominant_label t = Inr te \<Longrightarrow> dominant_label v = Inr ve \<Longrightarrow> dominant_label a = Inr ae \<Longrightarrow>
   fuse_fallback t v a =
     Inr \<lparr>dominant_emotion = (if te = ve \<or> te = ae then te else if ve = ae then ve else te),
          confidence = 50,
          emotion_scores = [(if te = ve \<or> te = ae then te else if ve = ae then ve else te, 100)],
          mr_text = (te, 333 / 10),
          mr_video = (ve, 333 / 10),
          mr_audio = (ae, 333 / 10)\<rparr>"
  by (simp add: fuse_fallback_def most_common_three)


lemma label_is_str_iff: "label_is_str result \<longleftrightarrow> (\<exists>e. dominant_label result = Inr e)"
  by (cases "dict_get result ''dominant_emotion'' (PStr ''neutral'')")
     (simp_all add: label_is_str_def dominant_label_def)

lemma normalize_emotion_neutral: "normalize_emotion ''neutral'' = ''neutral''"
  by (simp add: normalize_emotion_def EMOTION_MAPPING_def)

lemma dominant_label_absent:
  "map_of result (PStr ''dominant_emotion'') = None \<Longrightarrow> dominant_label result = Inr ''neutral''"
  by (simp add: dominant_label_def dict_get_def normalize_emotion_neutral)

section \<open>Evaluation of the example inputs\<close>

lemma ex_votes:
  "modality_votes ex_text_happy ex_video_sad ex_audio_sad =
     Inr ((''happy'', 9 / 10), (''sad'', 9 / 10), (''sad'', 9 / 10))"
  by code_simp

lemma ex_primary:
  "fuse_primary flat_rank ex_text_happy ex_video_sad ex_audio_sad None =
     Inr \<lparr>dominant_emotion = ''sad'', confidence = 63,
          emotion_scores = [(''happy'', 30), (''sad'', 70)],
          mr_text = (''happy'', 9 / 10), mr_video = (''sad'', 9 / 10), mr_audio = (''sad'', 9 / 10)\<rparr>"
  by code_simp


lemma ex_bad_primary:
  "fuse_primary flat_rank ex_text_bad ex_video_sad ex_audio_sad None = Inl TypeError"
  by code_simp

lemma ex_bad_dominant:
  "dominant_label ex_text_bad = Inr ''happy''"
  "dominant_label ex_video_sad = Inr ''sad''"
  "dominant_label ex_audio_sad = Inr ''sad''"
  by code_simp+

lemma ex_zero_votes:
  "modality_votes ex_text_zero ex_video_zero ex_audio_zero =
     Inr ((''happy'', 0), (''sad'', 0), (''sad'', 0))"
  by code_simp

lemma ex_zero_primary:
  "\<exists>r. fuse_primary flat_rank ex_text_zero ex_video_zero ex_audio_zero None = Inr r"
  by (simp add: fuse_primary_Inr ex_zero_votes weighted_voting_def weights_or_default_def
        set_iter_def flat_rank_def emotion_score_default py_max_by_def)

lemma ex_zero_weight_values:
  "weight_value (weights_or_default (Some ex_zero_weights)) ''text'' = Inr 0"
  "weight_value (weights_or_default (Some ex_zero_weights)) ''video'' = Inr 0"
  "weight_value (weights_or_default (Some ex_zero_weights)) ''audio'' = Inr 0"
  by (simp_all add: weight_value_def weights_or_default_def ex_zero_weights_def)

lemma ex_zero_weights_primary:
  "\<exists>r. fuse_primary flat_rank ex_text_happy ex_video_sad ex_audio_sad (Some ex_zero_weights) = Inr r"
  by (simp add: fuse_primary_Inr ex_votes weighted_voting_def set_iter_def flat_rank_def
        emotion_score_def add_vote_def weight_term_def ex_zero_weight_values py_max_by_def)

lemma ex_bad_labels: "label_is_str ex_text_bad \<and> label_is_str ex_video_sad \<and> label_is_str ex_audio_sad"
  by (simp add: label_is_str_def dict_get_def ex_text_bad_def ex_video_sad_def ex_audio_sad_def)

section \<open>Weighted fusion of disagreeing modalities\<close>

text \<open>
  C1. Whenever the three modalities yield \<open>happy\<close> (text), \<open>sad\<close> (video) and \<open>sad\<close>
  (audio), each with extracted confidence 0.9, fusion with the default weights
  computes the weighted scores sad = 0.9 * 0.4 + 0.9 * 0.3 = 0.63 and
  happy = 0.9 * 0.3 = 0.27, returns \<open>sad\<close> as the dominant emotion and the rescaled
  scores sad = 70 and happy = 30, in whatever order the set of emotions is iterated.
\<close>

theorem fuse_happy_sad_sad:
  assumes "modality_votes t v a = Inr ((''happy'', 9 / 10), (''sad'', 9 / 10), (''sad'', 9 / 10))"
  shows "\<exists>scores r.
           weighted_voting rank default_weights
               ((''happy'', 9 / 10), (''sad'', 9 / 10), (''sad'', 9 / 10)) = Inr scores
           \<and> set scores = {(''sad'', 9 / 10 * (4 / 10) + 9 / 10 * (3 / 10)), (''happy'', 9 / 10 * (3 / 10))}
           \<and> set scores = {(''sad'', 63 / 100), (''happy'', 27 / 100)}
           \<and> fuse_results rank t v a None = Inr r
           \<and> dominant_emotion r = ''sad''
           \<and> set (emotion_scores r) = {(''sad'', 70), (''happy'', 30)}"
proof (cases "rank ''happy'' \<le> rank ''sad''")
  case True
  then have it: "set_iter rank [''happy'', ''sad'', ''sad''] = [''happy'', ''sad'']"
    by (simp add: set_iter_two)
  have wv: "weighted_voting rank default_weights
              ((''happy'', 9 / 10), (''sad'', 9 / 10), (''sad'', 9 / 10))
            = Inr [(''happy'', 27 / 100), (''sad'', 63 / 100)]"
    by (simp add: weighted_voting_def it emotion_score_default)
  have fr: "fuse_primary rank t v a None =
      Inr \<lparr>dominant_emotion = ''sad'', confidence = 63,
           emotion_scores = [(''happy'', 30), (''sad'', 70)],
           mr_text = (''happy'', 9 / 10), mr_video = (''sad'', 9 / 10), mr_audio = (''sad'', 9 / 10)\<rparr>"
    using py_round_63
    by (simp add: fuse_primary_def assms weights_or_default_def wv py_max_by_def rescale_def py_round_half)
  show ?thesis
    unfolding wv fuse_results_def fr by auto
next
  case False
  then have it: "set_iter rank [''happy'', ''sad'', ''sad''] = [''sad'', ''happy'']"
    by (simp add: set_iter_two)
  have wv: "weighted_voting rank default_weights
              ((''happy'', 9 / 10), (''sad'', 9 / 10), (''sad'', 9 / 10))
            = Inr [(''sad'', 63 / 100), (''happy'', 27 / 100)]"
    by (simp add: weighted_voting_def it emotion_score_default)
  have fr: "fuse_primary rank t v a None =
      Inr \<lparr>dominant_emotion = ''sad'', confidence = 63,
           emotion_scores = [(''sad'', 70), (''happy'', 30)],
           mr_text = (''happy'', 9 / 10), mr_video = (''sad'', 9 / 10), mr_audio = (''sad'', 9 / 10)\<rparr>"
    using py_round_63
    by (simp add: fuse_primary_def assms weights_or_default_def wv py_max_by_def rescale_def py_round_half)
  show ?thesis
    unfolding wv fuse_results_def fr by auto
qed

text \<open>
  The example inputs are such a triple.
\<close>

theorem fuse_happy_sad_sad_witness:
  "modality_votes ex_text_happy ex_video_sad ex_audio_sad =
     Inr ((''happy'', 9 / 10), (''sad'', 9 / 10), (''sad'', 9 / 10))
   \<and> (\<exists>scores r.
         weighted_voting flat_rank default_weights
             ((''happy'', 9 / 10), (''sad'', 9 / 10), (''sad'', 9 / 10)) = Inr scores
         \<and> set scores = {(''sad'', 63 / 100), (''happy'', 27 / 100)}
         \<and> fuse_results flat_rank ex_text_happy ex_video_sad ex_audio_sad None = Inr r
         \<and> dominant_emotion r = ''sad''
         \<and> set (emotion_scores r) = {(''sad'', 70), (''happy'', 30)})"
  using fuse_happy_sad_sad [OF ex_votes, of flat_rank] ex_votes by blast

section \<open>The confidence field\<close>

text \<open>
  C5. When the \<open>try\<close> block returns, the \<open>confidence\<close> of the result is the weighted
  score of the dominant emotion as it was before the scores were rescaled to
  percentages, multiplied by 100 and rounded to two decimals.
\<close>

theorem confidence_is_pre_rescale_score:
  assumes "fuse_primary rank t v a w = Inr r"
  shows "\<exists>votes scores s.
           modality_votes t v a = Inr votes
           \<and> weighted_voting rank (weights_or_default w) votes = Inr scores
           \<and> map_of scores (dominant_emotion r) = Some s
           \<and> confidence r = py_round (s * 100) 2"
proof -
  from assms obtain votes scores dominant where
    votes: "modality_votes t v a = Inr votes" and
    scores: "weighted_voting rank (weights_or_default w) votes = Inr scores" and
    dom: "py_max_by snd scores = Inr dominant" and
    dr: "dominant_emotion r = fst dominant" and
    cr: "confidence r = py_round (snd dominant * 100) 2"
    by (auto simp: fuse_primary_Inr)
  have "distinct (map fst scores)"
    using weighted_voting_keys [OF scores] by (simp add: distinct_set_iter)
  moreover have "dominant \<in> set scores" using dom by (rule py_max_by_mem)
  ultimately have "map_of scores (fst dominant) = Some (snd dominant)" by simp
  with votes scores dr cr show ?thesis by auto
qed

text \<open>
  On the example inputs the confidence is 63, from the score 0.63, while the rescaled
  percentage of the dominant emotion is 70.
\<close>

theorem confidence_is_pre_rescale_score_witness:
  "fuse_primary flat_rank ex_text_happy ex_video_sad ex_audio_sad None =
     Inr \<lparr>dominant_emotion = ''sad'', confidence = 63,
          emotion_scores = [(''happy'', 30), (''sad'', 70)],
          mr_text = (''happy'', 9 / 10), mr_video = (''sad'', 9 / 10), mr_audio = (''sad'', 9 / 10)\<rparr>
   \<and> (\<exists>votes scores s.
         modality_votes ex_text_happy ex_video_sad ex_audio_sad = Inr votes
         \<and> weighted_voting flat_rank (weights_or_default None) votes = Inr scores
         \<and> map_of scores ''sad'' = Some s
         \<and> 63 = py_round (s * 100) 2)"
  using confidence_is_pre_rescale_score [OF ex_primary] ex_primary by simp

section \<open>The sum of the emotion scores\<close>

text \<open>
  C8. When the \<open>try\<close> block returns, the values of \<open>emotion_scores\<close> sum to 100 if the
  total weighted score is positive, and to 0 if the three confidences are zero or the
  three weights are zero.
\<close>

theorem emotion_scores_sum:
  assumes "fuse_primary rank t v a w = Inr r"
  shows "\<exists>te tc ve vc ae ac scores.
           modality_votes t v a = Inr ((te, tc), (ve, vc), (ae, ac))
           \<and> weighted_voting rank (weights_or_default w) ((te, tc), (ve, vc), (ae, ac)) = Inr scores
           \<and> (0 < sum_list (map snd scores) \<longrightarrow> sum_list (map snd (emotion_scores r)) = 100)
           \<and> (tc = 0 \<and> vc = 0 \<and> ac = 0 \<longrightarrow> sum_list (map snd (emotion_scores r)) = 0)
           \<and> (weight_value (weights_or_default w) ''text'' = Inr 0
                \<and> weight_value (weights_or_default w) ''video'' = Inr 0
                \<and> weight_value (weights_or_default w) ''audio'' = Inr 0
                \<longrightarrow> sum_list (map snd (emotion_scores r)) = 0)"
proof -
  let ?W = "weights_or_default w"
  from assms obtain votes scores where
    votes: "modality_votes t v a = Inr votes" and
    scores: "weighted_voting rank ?W votes = Inr scores" and
    er: "emotion_scores r = rescale scores"
    by (auto simp: fuse_primary_Inr)
  obtain te tc ve vc ae ac where v: "votes = ((te, tc), (ve, vc), (ae, ac))"
    by (metis surj_pair)
  from scores have loop:
    "score_loop ?W (te, tc) (ve, vc) (ae, ac) (set_iter rank [te, ve, ae]) = Inr scores"
    by (simp add: weighted_voting_def v)
  have pos: "0 < sum_list (map snd scores) \<longrightarrow> sum_list (map snd (emotion_scores r)) = 100"
    by (simp add: er rescale_sum)
  have zc: "tc = 0 \<and> vc = 0 \<and> ac = 0 \<longrightarrow> sum_list (map snd (emotion_scores r)) = 0"
  proof
    assume "tc = 0 \<and> vc = 0 \<and> ac = 0"
    then have "sum_list (map snd scores) = 0"
      using score_loop_zero_conf [OF loop] by simp
    then show "sum_list (map snd (emotion_scores r)) = 0"
      by (simp add: er rescale_zero)
  qed
  have zw: "weight_value ?W ''text'' = Inr 0 \<and> weight_value ?W ''video'' = Inr 0
              \<and> weight_value ?W ''audio'' = Inr 0
            \<longrightarrow> sum_list (map snd (emotion_scores r)) = 0"
  proof
    assume "weight_value ?W ''text'' = Inr 0 \<and> weight_value ?W ''video'' = Inr 0
              \<and> weight_value ?W ''audio'' = Inr 0"
    then have "sum_list (map snd scores) = 0"
      using score_loop_zero_weights [OF loop] by simp
    then show "sum_list (map snd (emotion_scores r)) = 0"
      by (simp add: er rescale_zero)
  qed
  from votes scores pos zc zw show ?thesis unfolding v by blast
qed

text \<open>
  On the example inputs the total is positive and the scores 30 and 70 sum to 100;
  with zero confidences, and with zero weights, the scores sum to 0.
\<close>

theorem emotion_scores_sum_witness:
  "(\<exists>r scores.
      fuse_primary flat_rank ex_text_happy ex_video_sad ex_audio_sad None = Inr r
      \<and> weighted_voting flat_rank (weights_or_default None)
             ((''happy'', 9 / 10), (''sad'', 9 / 10), (''sad'', 9 / 10)) = Inr scores
      \<and> 0 < sum_list (map snd scores)
      \<and> sum_list (map snd (emotion_scores r)) = 100)
   \<and> (\<exists>r.
        fuse_primary flat_rank ex_text_zero ex_video_zero ex_audio_zero None = Inr r
        \<and> modality_votes ex_text_zero ex_video_zero ex_audio_zero
              = Inr ((''happy'', 0), (''sad'', 0), (''sad'', 0))
        \<and> sum_list (map snd (emotion_scores r)) = 0)
   \<and> (\<exists>r.
        fuse_primary flat_rank ex_text_happy ex_video_sad ex_audio_sad (Some ex_zero_weights) = Inr r
        \<and> weight_value (weights_or_default (Some ex_zero_weights)) ''text'' = Inr 0
        \<and> weight_value (weights_or_default (Some ex_zero_weights)) ''video'' = Inr 0
        \<and> weight_value (weights_or_default (Some ex_zero_weights)) ''audio'' = Inr 0
        \<and> sum_list (map snd (emotion_scores r)) = 0)"
proof (intro conjI)
  let ?r = "\<lparr>dominant_emotion = ''sad'', confidence = 63,
             emotion_scores = [(''happy'', 30), (''sad'', 70)],
             mr_text = (''happy'', 9 / 10), mr_video = (''sad'', 9 / 10),
             mr_audio = (''sad'', 9 / 10)\<rparr>"
  from emotion_scores_sum [OF ex_primary] obtain te tc ve vc ae ac scores where
    v: "modality_votes ex_text_happy ex_video_sad ex_audio_sad = Inr ((te, tc), (ve, vc), (ae, ac))" and
    s: "weighted_voting flat_rank (weights_or_default None) ((te, tc), (ve, vc), (ae, ac)) = Inr scores" and
    p: "0 < sum_list (map snd scores) \<longrightarrow> sum_list (map snd (emotion_scores ?r)) = 100"
    by blast
  from v have eq: "((te, tc), (ve, vc), (ae, ac)) = ((''happy'', 9 / 10), (''sad'', 9 / 10), (''sad'', 9 / 10))"
    by (simp only: ex_votes sum.inject)
  have w: "weighted_voting flat_rank (weights_or_default None)
             ((''happy'', 9 / 10), (''sad'', 9 / 10), (''sad'', 9 / 10))
           = Inr [(''happy'', 27 / 100), (''sad'', 63 / 100)]"
    by code_simp
  with s eq have sc: "scores = [(''happy'', 27 / 100), (''sad'', 63 / 100)]" by simp
  then have pos: "0 < sum_list (map snd scores)" by simp
  with p have "sum_list (map snd (emotion_scores ?r)) = 100" by blast
  with ex_primary w sc pos show
    "\<exists>r scores.
      fuse_primary flat_rank ex_text_happy ex_video_sad ex_audio_sad None = Inr r
      \<and> weighted_voting flat_rank (weights_or_default None)
             ((''happy'', 9 / 10), (''sad'', 9 / 10), (''sad'', 9 / 10)) = Inr scores
      \<and> 0 < sum_list (map snd scores)
      \<and> sum_list (map snd (emotion_scores r)) = 100"
    by blast
next
  obtain r where r: "fuse_primary flat_rank ex_text_zero ex_video_zero ex_audio_zero None = Inr r"
    using ex_zero_primary by blast
  from emotion_scores_sum [OF r] ex_zero_votes
  have "sum_list (map snd (emotion_scores r)) = 0" by auto
  with r ex_zero_votes show
    "\<exists>r. fuse_primary flat_rank ex_text_zero ex_video_zero ex_audio_zero None = Inr r
        \<and> modality_votes ex_text_zero ex_video_zero ex_audio_zero
              = Inr ((''happy'', 0), (''sad'', 0), (''sad'', 0))
        \<and> sum_list (map snd (emotion_scores r)) = 0"
    by blast
next
  obtain r where r:
    "fuse_primary flat_rank ex_text_happy ex_video_sad ex_audio_sad (Some ex_zero_weights) = Inr r"
    using ex_zero_weights_primary by blast
  from emotion_scores_sum [OF r] ex_zero_weight_values
  have "sum_list (map snd (emotion_scores r)) = 0" by auto
  with r ex_zero_weight_values show
    "\<exists>r. fuse_primary flat_rank ex_text_happy ex_video_sad ex_audio_sad (Some ex_zero_weights) = Inr r
        \<and> weight_value (weights_or_default (Some ex_zero_weights)) ''text'' = Inr 0
        \<and> weight_value (weights_or_default (Some ex_zero_weights)) ''video'' = Inr 0
        \<and> weight_value (weights_or_default (Some ex_zero_weights)) ''audio'' = Inr 0
        \<and> sum_list (map snd (emotion_scores r)) = 0"
    by blast
qed

section \<open>Fusion returns a result\<close>

text \<open>
  C2, as amended. If in each of the three result dictionaries the \<open>dominant_emotion\<close>
  entry is absent or a string, then \<open>fuse_results\<close> returns a result, whatever the
  evidence payloads and the weights are; and on three empty dictionaries with the
  default weights it returns the all-neutral result of the \<open>try\<close> block, with the
  default confidence 0.5 for each modality.
\<close>

theorem fuse_results_returns:
  "(label_is_str t \<and> label_is_str v \<and> label_is_str a
      \<longrightarrow> (\<exists>r. fuse_results rank t v a w = Inr r))
   \<and> fuse_results rank [] [] [] None =
       Inr \<lparr>dominant_emotion = ''neutral'', confidence = 50,
            emotion_scores = [(''neutral'', 100)],
            mr_text = (''neutral'', 1 / 2), mr_video = (''neutral'', 1 / 2),
            mr_audio = (''neutral'', 1 / 2)\<rparr>"
proof
  show "label_is_str t \<and> label_is_str v \<and> label_is_str a
          \<longrightarrow> (\<exists>r. fuse_results rank t v a w = Inr r)"
  proof
    assume "label_is_str t \<and> label_is_str v \<and> label_is_str a"
    then obtain te ve ae where
      "dominant_label t = Inr te" "dominant_label v = Inr ve" "dominant_label a = Inr ae"
      by (auto simp: label_is_str_iff)
    then have "\<exists>r. fuse_fallback t v a = Inr r"
      by (simp add: fuse_fallback_Inr)
    then show "\<exists>r. fuse_results rank t v a w = Inr r"
      by (cases "fuse_primary rank t v a w") (simp_all add: fuse_results_def)
  qed
next
  have votes: "modality_votes [] [] [] =
      Inr ((''neutral'', 1 / 2), (''neutral'', 1 / 2), (''neutral'', 1 / 2))"
    by (simp add: modality_votes_def dominant_label_def dict_get_def normalize_emotion_neutral
          get_confidence_def get_video_confidence_def)
  have wv: "weighted_voting rank default_weights
      ((''neutral'', 1 / 2), (''neutral'', 1 / 2), (''neutral'', 1 / 2)) = Inr [(''neutral'', 1 / 2)]"
    by (simp add: weighted_voting_def set_iter_one emotion_score_default)
  show "fuse_results rank [] [] [] None =
       Inr \<lparr>dominant_emotion = ''neutral'', confidence = 50,
            emotion_scores = [(''neutral'', 100)],
            mr_text = (''neutral'', 1 / 2), mr_video = (''neutral'', 1 / 2),
            mr_audio = (''neutral'', 1 / 2)\<rparr>"
    by (simp add: fuse_results_def fuse_primary_def votes weights_or_default_def wv
          py_max_by_def rescale_def py_round_half py_round_50)
qed

text \<open>
  A text result whose score is not a number still yields a result.
\<close>

theorem fuse_results_returns_witness:
  "label_is_str ex_text_bad \<and> label_is_str ex_video_sad \<and> label_is_str ex_audio_sad
   \<and> (\<exists>r. fuse_results flat_rank ex_text_bad ex_video_sad ex_audio_sad None = Inr r)"
  using fuse_results_returns [of ex_text_bad ex_video_sad ex_audio_sad flat_rank None] ex_bad_labels
  by blast

text \<open>
  C2 as stated fails: for the text result \<open>{'dominant_emotion': None}\<close> the call
  \<open>None.lower()\<close> raises in the \<open>try\<close> block and again in the \<open>except\<close> block, and
  the exception reaches the caller.
\<close>

theorem fuse_results_raises_on_none_label:
  "fuse_results flat_rank [(PStr ''dominant_emotion'', PNone)] [] [] None = Inl AttributeError"
  by (simp add: fuse_results_def fuse_primary_def fuse_fallback_def modality_votes_def
        dominant_label_def dict_get_def)

section \<open>The fallback path\<close>

text \<open>
  C6, as amended. If each \<open>dominant_emotion\<close> entry is absent or a string and the
  \<open>try\<close> block raises, then \<open>fuse_results\<close> returns the fallback result: the labels
  are normalized (\<open>neutral\<close> when absent), the winner is the label that occurs at
  least twice, or the text label when the three differ, the confidence is 50, the
  scores are \<open>{winner: 100}\<close> and every modality is reported with confidence 33.3.
\<close>

theorem fallback_majority_vote:
  assumes "label_is_str t" and "label_is_str v" and "label_is_str a"
    and "fuse_primary rank t v a w = Inl e"
  shows "\<exists>te ve ae.
           dominant_label t = Inr te \<and> dominant_label v = Inr ve \<and> dominant_label a = Inr ae
           \<and> (map_of t (PStr ''dominant_emotion'') = None \<longrightarrow> te = ''neutral'')
           \<and> (map_of v (PStr ''dominant_emotion'') = None \<longrightarrow> ve = ''neutral'')
           \<and> (map_of a (PStr ''dominant_emotion'') = None \<longrightarrow> ae = ''neutral'')
           \<and> fuse_results rank t v a w =
               Inr \<lparr>dominant_emotion = (if te = ve \<or> te = ae then te else if ve = ae then ve else te),
                    confidence = 50,
                    emotion_scores =
                      [(if te = ve \<or> te = ae then te else if ve = ae then ve else te, 100)],
                    mr_text = (te, 333 / 10),
                    mr_video = (ve, 333 / 10),
                    mr_audio = (ae, 333 / 10)\<rparr>"
proof -
  from assms(1-3) obtain te ve ae where
    l: "dominant_label t = Inr te" "dominant_label v = Inr ve" "dominant_label a = Inr ae"
    by (auto simp: label_is_str_iff)
  have "map_of t (PStr ''dominant_emotion'') = None \<longrightarrow> te = ''neutral''"
    using l(1) by (auto dest: dominant_label_absent)
  moreover have "map_of v (PStr ''dominant_emotion'') = None \<longrightarrow> ve = ''neutral''"
    using l(2) by (auto dest: dominant_label_absent)
  moreover have "map_of a (PStr ''dominant_emotion'') = None \<longrightarrow> ae = ''neutral''"
    using l(3) by (auto dest: dominant_label_absent)
  moreover have "fuse_results rank t v a w = fuse_fallback t v a"
    using assms(4) by (simp add: fuse_results_def)
  ultimately show ?thesis
    using l fuse_fallback_Inr [OF l] by auto
qed

text \<open>
  With a malformed text score the fallback returns the majority \<open>sad\<close> of video and
  audio against the text label \<open>happy\<close>.
\<close>

theorem fallback_majority_vote_witness:
  "label_is_str ex_text_bad \<and> label_is_str ex_video_sad \<and> label_is_str ex_audio_sad
   \<and> fuse_primary flat_rank ex_text_bad ex_video_sad ex_audio_sad None = Inl TypeError
   \<and> fuse_results flat_rank ex_text_bad ex_video_sad ex_audio_sad None =
       Inr \<lparr>dominant_emotion = ''sad'', confidence = 50, emotion_scores = [(''sad'', 100)],
            mr_text = (''happy'', 333 / 10), mr_video = (''sad'', 333 / 10),
            mr_audio = (''sad'', 333 / 10)\<rparr>"
  using fallback_majority_vote [of ex_text_bad ex_video_sad ex_audio_sad flat_rank None TypeError]
    ex_bad_labels ex_bad_primary ex_bad_dominant
  by auto

text \<open>
  C6 as stated fails: for the video result \<open>{'dominant_emotion': 5}\<close> the \<open>try\<close>
  block raises and the fallback raises as well.
\<close>

theorem fallback_raises_on_numeric_label:
  "fuse_primary flat_rank [] [(PStr ''dominant_emotion'', PNum 5)] [] None = Inl AttributeError
   \<and> fuse_results flat_rank [] [(PStr ''dominant_emotion'', PNum 5)] [] None = Inl AttributeError"
  by (simp add: fuse_results_def fuse_primary_def fuse_fallback_def modality_votes_def
        dominant_label_def dict_get_def normalize_emotion_neutral)

section \<open>The range of the extracted confidence\<close>

lemma video_loop_in_range:
  "list_all (\<lambda>kv. is_str (fst kv) \<and> num_between 0 n (snd kv)) d \<Longrightarrow>
     \<exists>c. video_loop d (PNum n) emotion = Inr c \<and> 0 \<le> c \<and> c \<le> 1"
proof (induction d)
  case Nil
  show ?case by (intro exI [of _ "1 / 2"]) simp
next
  case (Cons kv d)
  obtain k x where kv: "kv = (k, x)" by (cases kv)
  from Cons.prems kv obtain s y where k: "k = PStr s" and x: "x = PNum y" and y: "0 \<le> y" "y \<le> n"
    by (auto simp: is_str_def num_between_def split: pyval.splits)
  show ?case
  proof (cases "normalize_emotion s = emotion")
    case True
    show ?thesis
    proof (cases "0 < n")
      case True
      with y have "0 \<le> y / n" and "y / n \<le> 1" by simp_all
      moreover from True \<open>normalize_emotion s = emotion\<close>
      have "video_loop (kv # d) (PNum n) emotion = Inr (y / n)"
        by (simp add: kv k x py_gt_zero_def py_truediv_def)
      ultimately show ?thesis by blast
    next
      case False
      with \<open>normalize_emotion s = emotion\<close>
      have "video_loop (kv # d) (PNum n) emotion = Inr 0"
        by (simp add: kv k x py_gt_zero_def)
      then show ?thesis by (intro exI [of _ 0]) simp
    qed
  next
    case False
    with Cons show ?thesis by (simp add: kv k)
  qed
qed

lemma get_video_confidence_in_range:
  assumes "frames_in_range result"
  shows "\<exists>c. get_video_confidence result emotion = Inr c \<and> 0 \<le> c \<and> c \<le> 1"
proof -
  from assms obtain n d where
    n: "dict_get result ''total_frames_processed'' (PNum 1) = PNum n" and
    d: "dict_get result ''emotion_distribution'' (PDict []) = PDict d" and
    ok: "list_all (\<lambda>kv. is_str (fst kv) \<and> num_between 0 n (snd kv)) d"
    by (auto simp: frames_in_range_def split: pyval.splits)
  from video_loop_in_range [OF ok] show ?thesis
    by (simp add: get_video_confidence_def n d)
qed

lemma get_confidence_in_range:
  assumes "scores_in_range result"
  shows "\<exists>c. get_confidence result emotion = Inr c \<and> 0 \<le> c \<and> c \<le> 1"
proof -
  from assms obtain d where
    d: "dict_get result ''confidence_scores'' (PDict []) = PDict d" and
    ok: "list_all (\<lambda>kv. num_between 0 100 (snd kv)) d"
    by (auto simp: scores_in_range_def split: pyval.splits)
  show ?thesis
  proof (cases "map_of d (PStr emotion)")
    case None
    then have "get_confidence result emotion = Inr (1 / 2)"
      by (simp add: get_confidence_def d)
    then show ?thesis by (intro exI [of _ "1 / 2"]) simp
  next
    case (Some x)
    then have "(PStr emotion, x) \<in> set d" by (rule map_of_SomeD)
    with ok have "num_between 0 100 x" by (auto simp: list_all_iff)
    then obtain y where "x = PNum y" "0 \<le> y" "y \<le> 100"
      by (auto simp: num_between_def split: pyval.splits)
    with Some have "get_confidence result emotion = Inr (y / 100)"
      by (simp add: get_confidence_def d py_truediv_def)
    with \<open>0 \<le> y\<close> \<open>y \<le> 100\<close> show ?thesis by (intro exI [of _ "y / 100"]) simp
  qed
qed

text \<open>
  C9, as amended. A score map that is absent or has its values between 0 and 100
  gives a confidence in [0, 1]. A frame distribution that is absent or has string
  keys and counts between 0 and the number of frames processed gives a confidence in
  [0, 1], where the number of frames processed is 1 when the field
  \<open>total_frames_processed\<close> is absent.
\<close>

theorem extracted_confidence_in_unit_interval:
  "(scores_in_range result \<longrightarrow> (\<exists>c. get_confidence result emotion = Inr c \<and> 0 \<le> c \<and> c \<le> 1))
   \<and> (frames_in_range result
        \<longrightarrow> (\<exists>c. get_video_confidence result emotion = Inr c \<and> 0 \<le> c \<and> c \<le> 1))"
  using get_confidence_in_range get_video_confidence_in_range by blast

text \<open>
  The example results and the empty result satisfy the conditions.
\<close>

theorem extracted_confidence_in_unit_interval_witness:
  "scores_in_range ex_text_happy \<and> frames_in_range ex_video_sad
   \<and> scores_in_range [] \<and> frames_in_range []
   \<and> (\<exists>c. get_confidence ex_text_happy ''happy'' = Inr c \<and> 0 \<le> c \<and> c \<le> 1)
   \<and> (\<exists>c. get_video_confidence ex_video_sad ''sad'' = Inr c \<and> 0 \<le> c \<and> c \<le> 1)
   \<and> (\<exists>c. get_confidence [] ''neutral'' = Inr c \<and> 0 \<le> c \<and> c \<le> 1)
   \<and> (\<exists>c. get_video_confidence [] ''neutral'' = Inr c \<and> 0 \<le> c \<and> c \<le> 1)"
proof -
  have h: "scores_in_range ex_text_happy" "frames_in_range ex_video_sad"
    "scores_in_range []" "frames_in_range []"
    by (simp_all add: scores_in_range_def frames_in_range_def dict_get_def num_between_def
          is_str_def ex_text_happy_def ex_video_sad_def)
  show ?thesis
    using h extracted_confidence_in_unit_interval [of ex_text_happy "''happy''"]
      extracted_confidence_in_unit_interval [of ex_video_sad "''sad''"]
      extracted_confidence_in_unit_interval [of "[]" "''neutral''"]
    by blast
qed

text \<open>
  C9 as stated fails: when \<open>total_frames_processed\<close> is absent the count is divided
  by 1, so the frame distribution \<open>{'Happy': 8}\<close> gives the confidence 8.
\<close>

theorem video_confidence_without_total:
  "get_video_confidence
     [(PStr ''dominant_emotion'', PStr ''Happy''),
      (PStr ''emotion_distribution'', PDict [(PStr ''Happy'', PNum 8)])] ''happy'' = Inr 8
   \<and> (1 :: real) < 8"
  by (simp add: get_video_confidence_def dict_get_def normalize_emotion_Happy py_gt_zero_def
        py_truediv_def)

section \<open>The emotions of the result\<close>








end
